theory Spec2Isabelle
  imports Main
begin

section \<open>JavaScript values used by the Loan Disbursement client scripts\<close>

text \<open>
  The two scripts (\<^verbatim>\<open>loan_disbursement.js\<close> and \<^verbatim>\<open>loan_disbursement_list.js\<close>) only
  build and read plain data: strings, the number literal \<^verbatim>\<open>1\<close>, arrays and object
  literals. Numbers are restricted to integers (the only numbers of the scripts are
  \<^verbatim>\<open>docstatus\<close> and the literal \<^verbatim>\<open>1\<close>). \<open>JBuiltin\<close> stands for a native object or
  function of the runtime, named by its path; it is what a property read reaches when
  it falls through an object literal to \<^verbatim>\<open>Object.prototype\<close>.
\<close>

datatype jsval =
    JUndefined
  | JNull
  | JBool bool
  | JNum int
  | JStr string
  | JArr "jsval list"
  | JObj "(string \<times> jsval) list"
  | JBuiltin string

type_synonym obj = "(string \<times> jsval) list"

text \<open>An exception thrown by the script.\<close>

datatype error = TypeError

text \<open>JavaScript's ToBoolean, as used by \<^verbatim>\<open>if (...)\<close> and \<^verbatim>\<open>&&\<close>.\<close>

fun truthy :: "jsval \<Rightarrow> bool" where
  "truthy JUndefined = False"
| "truthy JNull = False"
| "truthy (JBool b) = b"
| "truthy (JNum n) = (n \<noteq> 0)"
| "truthy (JStr s) = (s \<noteq> [])"
| "truthy (JArr xs) = True"
| "truthy (JObj ps) = True"
| "truthy (JBuiltin n) = True"

text \<open>
  The properties every object literal and every parsed JSON object inherits from
  \<^verbatim>\<open>Object.prototype\<close> (ECMAScript, with the Annex B accessors every browser ships).
  \<^verbatim>\<open>o.constructor\<close> is the function \<^verbatim>\<open>Object\<close> and \<^verbatim>\<open>o.__proto__\<close> is
  \<^verbatim>\<open>Object.prototype\<close> itself.
\<close>

definition Object_prototype :: obj where
  "Object_prototype =
    [(''constructor'', JBuiltin ''Object''),
     (''hasOwnProperty'', JBuiltin ''Object.prototype.hasOwnProperty''),
     (''isPrototypeOf'', JBuiltin ''Object.prototype.isPrototypeOf''),
     (''propertyIsEnumerable'', JBuiltin ''Object.prototype.propertyIsEnumerable''),
     (''toLocaleString'', JBuiltin ''Object.prototype.toLocaleString''),
     (''toString'', JBuiltin ''Object.prototype.toString''),
     (''valueOf'', JBuiltin ''Object.prototype.valueOf''),
     (''__proto__'', JBuiltin ''Object.prototype''),
     (''__defineGetter__'', JBuiltin ''Object.prototype.__defineGetter__''),
     (''__defineSetter__'', JBuiltin ''Object.prototype.__defineSetter__''),
     (''__lookupGetter__'', JBuiltin ''Object.prototype.__lookupGetter__''),
     (''__lookupSetter__'', JBuiltin ''Object.prototype.__lookupSetter__'')]"

text \<open>
  Reading \<^verbatim>\<open>o[k]\<close> (or \<^verbatim>\<open>o.k\<close>) on a plain object: the own property if there is one,
  else the inherited one, else \<^verbatim>\<open>undefined\<close>. The read never throws.
\<close>

definition get_prop :: "obj \<Rightarrow> string \<Rightarrow> jsval" where
  "get_prop ob k =
    (case map_of ob k of
       Some v \<Rightarrow> v
     | None \<Rightarrow> (case map_of Object_prototype k of Some v \<Rightarrow> v | None \<Rightarrow> JUndefined))"

section \<open>The Loan Disbursement document\<close>

text \<open>
  The fields of \<^verbatim>\<open>doc\<close> / \<^verbatim>\<open>frm.doc\<close> the scripts read. \<^verbatim>\<open>docstatus\<close> is the
  framework's integer lifecycle marker and \<^verbatim>\<open>status\<close> a string; the fields that are
  only tested for truthiness or passed on are arbitrary values. The record is
  extensible: any further fields of a document live in its \<open>more\<close> part.
\<close>

record document =
  name :: jsval
  docstatus :: int
  status :: string
  repayment_schedule_type :: jsval
  against_loan :: jsval
  applicant_type :: jsval
  applicant :: jsval
  loan_product :: jsval
  company :: jsval

section \<open>List view: \<^verbatim>\<open>get_indicator\<close>\<close>

text \<open>
  \<^verbatim>\<open>
  get_indicator: function(doc) {
      var status_color = {
          "Draft": "red",
          "Submitted": "blue",
          "Cancelled": "red",
          "Closed": "green"
      };
      return [__(doc.status), status_color[doc.status], "status,=,"+doc.status];
  }
  \<close>
  The framework's translation function \<^verbatim>\<open>__\<close> is a parameter \<open>tr\<close>.
\<close>

definition status_color :: obj where
  "status_color =
    [(''Draft'', JStr ''red''),
     (''Submitted'', JStr ''blue''),
     (''Cancelled'', JStr ''red''),
     (''Closed'', JStr ''green'')]"

definition get_indicator ::
  "(string \<Rightarrow> string) \<Rightarrow> 'a document_scheme \<Rightarrow> string \<times> jsval \<times> string" where
  "get_indicator tr doc =
    (tr (status doc), get_prop status_color (status doc), ''status,=,'' @ status doc)"

section \<open>Form view: the handlers registered with \<^verbatim>\<open>frappe.ui.form.on\<close>\<close>

text \<open>
  The script first calls \<^verbatim>\<open>lending.common.setup_filters("Loan Disbursement")\<close>, a
  function defined elsewhere; the three handlers below do not depend on it.
\<close>

text \<open>
  A custom button of the form: its label, its group and the event its click handler
  triggers on the form (\<^verbatim>\<open>function() { frm.trigger("make_repayment_entry"); }\<close>).
\<close>

record button =
  label :: string
  group :: string
  triggers :: string

text \<open>
  The part of \<^verbatim>\<open>frm\<close> the handlers read and write: the viewed document, the
  property \<^verbatim>\<open>ignore_doctypes_on_cancel_all\<close>, the query functions installed by
  \<^verbatim>\<open>frm.set_query\<close> (by field name; a query function is applied to the document being
  viewed when the link field asks for its options) and the custom buttons in the order
  they were added.
\<close>

record form =
  doc :: document
  ignore_doctypes_on_cancel_all :: jsval
  queries :: "string \<Rightarrow> (document \<Rightarrow> jsval) option"
  custom_buttons :: "button list"

text \<open>
  \<^verbatim>\<open>
  setup(frm) {
      frm.ignore_doctypes_on_cancel_all = ["Loan Security Deposit", "Loan Repayment Schedule",
          "Sales Invoice", "Loan Interest Accrual", "Loan Demand", "Loan Restructure",
          "Loan Repayment", "Process Loan Classification"];
  }
  \<close>
\<close>

definition setup_form :: "form \<Rightarrow> form" where
  "setup_form frm =
    frm\<lparr>ignore_doctypes_on_cancel_all :=
      JArr [JStr ''Loan Security Deposit'', JStr ''Loan Repayment Schedule'',
            JStr ''Sales Invoice'', JStr ''Loan Interest Accrual'', JStr ''Loan Demand'',
            JStr ''Loan Restructure'', JStr ''Loan Repayment'',
            JStr ''Process Loan Classification'']\<rparr>"

text \<open>
  The function passed to \<^verbatim>\<open>frm.set_query('against_loan', ...)\<close>: it takes no
  parameter and reads no variable.
  \<^verbatim>\<open>
  function() {
      return {
          'filters': {
              'docstatus': 1,
              "status": ["in",["Sanctioned","Active", "Partially Disbursed"]],
          }
      }
  }
  \<close>
\<close>

definition against_loan_query :: "document \<Rightarrow> jsval" where
  "against_loan_query d =
    JObj [(''filters'',
           JObj [(''docstatus'', JNum 1),
                 (''status'',
                  JArr [JStr ''in'',
                        JArr [JStr ''Sanctioned'', JStr ''Active'',
                              JStr ''Partially Disbursed'']])])]"

text \<open>
  \<^verbatim>\<open>
  refresh: function(frm) {
      frm.set_query('against_loan', function() { ... })
      if (frm.doc.docstatus == 1 && frm.doc.repayment_schedule_type && frm.doc.status != "Closed") {
          frm.add_custom_button(__('Loan Repayment'), function() {
              frm.trigger("make_repayment_entry");
          },__('Create'));
      }
  }
  \<close>
\<close>

definition refresh :: "(string \<Rightarrow> string) \<Rightarrow> form \<Rightarrow> form" where
  "refresh tr frm =
    (let frm1 = frm\<lparr>queries := (queries frm)(''against_loan'' \<mapsto> against_loan_query)\<rparr>
     in if docstatus (doc frm1) = 1 \<and> truthy (repayment_schedule_type (doc frm1))
           \<and> status (doc frm1) \<noteq> ''Closed''
        then frm1\<lparr>custom_buttons := custom_buttons frm1 @
               [\<lparr>label = tr ''Loan Repayment'', group = tr ''Create'',
                 triggers = ''make_repayment_entry''\<rparr>]\<rparr>
        else frm1)"

section \<open>The remote call and its callback\<close>

text \<open>A remote call handed to \<^verbatim>\<open>frappe.call\<close>: the server method (the \<^verbatim>\<open>method\<close> key of the
  call) and its arguments.\<close>

record request =
  method_name :: string
  args :: obj

text \<open>
  The framework state the handlers act on: the remote calls issued so far, the payloads
  handed to \<^verbatim>\<open>frappe.model.sync\<close> so far, and the current route of the UI.
\<close>

record frappe =
  calls :: "request list"
  synced :: "jsval list"
  route :: "jsval list"

text \<open>
  \<^verbatim>\<open>
  make_repayment_entry: function(frm) {
      frappe.call({
          args: {
              "loan": frm.doc.against_loan,
              "applicant_type": frm.doc.applicant_type,
              "applicant": frm.doc.applicant,
              "loan_product": frm.doc.loan_product,
              "company": frm.doc.company,
              "loan_disbursement": frm.doc.name,
              "as_dict": 1
          },
          method: "lending.loan_management.doctype.loan.loan.make_repayment_entry",
          callback: function (r) { ... }
      })
  }
  \<close>
\<close>

definition make_repayment_entry :: "form \<Rightarrow> frappe \<Rightarrow> frappe" where
  "make_repayment_entry frm fr =
    fr\<lparr>calls := calls fr @
      [\<lparr>method_name = ''lending.loan_management.doctype.loan.loan.make_repayment_entry'',
        args = [(''loan'', against_loan (doc frm)),
                (''applicant_type'', applicant_type (doc frm)),
                (''applicant'', applicant (doc frm)),
                (''loan_product'', loan_product (doc frm)),
                (''company'', company (doc frm)),
                (''loan_disbursement'', name (doc frm)),
                (''as_dict'', JNum 1)]\<rparr>]\<rparr>"

text \<open>\<^verbatim>\<open>a[0]\<close> on an array: its first element, \<^verbatim>\<open>undefined\<close> (here \<open>None\<close>) when empty.\<close>

definition index0 :: "'a list \<Rightarrow> 'a option" where
  "index0 xs = (case xs of [] \<Rightarrow> None | x # _ \<Rightarrow> Some x)"

text \<open>
  The callback of the remote call, run on the response object \<open>r\<close>.
  \<^verbatim>\<open>
  callback: function (r) {
      if (r.message)
          var doc = frappe.model.sync(r.message)[0];
      frappe.set_route("Form", doc.doctype, doc.name);
  }
  \<close>
  The \<^verbatim>\<open>if\<close> has no braces: it guards the \<^verbatim>\<open>var\<close> statement only, and
  \<^verbatim>\<open>frappe.set_route\<close> is the next statement of the function body. \<^verbatim>\<open>var doc\<close> is
  hoisted, so \<^verbatim>\<open>doc\<close> is \<^verbatim>\<open>undefined\<close> (\<open>None\<close>) when the assignment is skipped. The
  arguments of \<^verbatim>\<open>set_route\<close> are evaluated before the call, and reading a property of
  \<^verbatim>\<open>undefined\<close> throws a TypeError, so the route is not touched then.

  \<^verbatim>\<open>frappe.model.sync\<close> belongs to the framework; it is the parameter \<open>sync\<close>, which
  gives the array of local documents the framework returns for a payload.
  The result is the exception thrown, if any, and the framework state reached.
\<close>

definition callback ::
  "(jsval \<Rightarrow> obj list) \<Rightarrow> obj \<Rightarrow> frappe \<Rightarrow> error option \<times> frappe" where
  "callback sync r fr =
    (let (local_doc, fr1) =
           (if truthy (get_prop r ''message'')
            then (index0 (sync (get_prop r ''message'')),
                  fr\<lparr>synced := synced fr @ [get_prop r ''message'']\<rparr>)
            else (None, fr))
     in case local_doc of
          None \<Rightarrow> (Some TypeError, fr1)
        | Some d \<Rightarrow>
            (None, fr1\<lparr>route := [JStr ''Form'', get_prop d ''doctype'', get_prop d ''name'']\<rparr>))"

text \<open>
  Modelled from the spec: \<^verbatim>\<open>frappe.model.sync\<close> is framework code outside this
  repository. The spec says that on success the framework "materializes the returned
  payload into a local record representation": a record payload becomes one local
  document with the payload's fields. The spec describes no other payload.
\<close>

definition sync_record :: "jsval \<Rightarrow> obj list" where
  "sync_record payload = (case payload of JObj p \<Rightarrow> [p] | _ \<Rightarrow> [])"

section \<open>Properties of the list indicator\<close>

lemma status_color_Draft: "get_prop status_color ''Draft'' = JStr ''red''"
  by (simp add: get_prop_def status_color_def)

lemma status_color_Submitted: "get_prop status_color ''Submitted'' = JStr ''blue''"
  by (simp add: get_prop_def status_color_def)

lemma status_color_Cancelled: "get_prop status_color ''Cancelled'' = JStr ''red''"
  by (simp add: get_prop_def status_color_def)

lemma status_color_Closed: "get_prop status_color ''Closed'' = JStr ''green''"
  by (simp add: get_prop_def status_color_def)

text \<open>
  C4. For each of the four statuses Draft, Submitted, Cancelled and Closed,
  \<open>get_indicator\<close> returns the colour fixed by the mapping (red, blue, red, green) and
  as third component the filter clause \<^verbatim>\<open>"status,=,"\<close> followed by that status.
\<close>

theorem get_indicator_mapped:
  "status d \<in> {''Draft'', ''Submitted'', ''Cancelled'', ''Closed''} \<Longrightarrow>
     fst (snd (get_indicator tr d)) =
       (if status d = ''Draft'' then JStr ''red''
        else if status d = ''Submitted'' then JStr ''blue''
        else if status d = ''Cancelled'' then JStr ''red''
        else JStr ''green'')
     \<and> snd (snd (get_indicator tr d)) = ''status,=,'' @ status d"
  by (auto simp: get_indicator_def status_color_Draft status_color_Submitted
      status_color_Cancelled status_color_Closed)

text \<open>A submitted document: blue, and the clause \<^verbatim>\<open>status,=,Submitted\<close>.\<close>

theorem get_indicator_mapped_witness:
  "status \<lparr>name = JStr ''LD-0001'', docstatus = 1, status = ''Submitted'',
       repayment_schedule_type = JNull, against_loan = JNull, applicant_type = JNull,
       applicant = JNull, loan_product = JNull, company = JNull\<rparr>
     \<in> {''Draft'', ''Submitted'', ''Cancelled'', ''Closed''}
   \<and> fst (snd (get_indicator (\<lambda>s. s)
       \<lparr>name = JStr ''LD-0001'', docstatus = 1, status = ''Submitted'',
        repayment_schedule_type = JNull, against_loan = JNull, applicant_type = JNull,
        applicant = JNull, loan_product = JNull, company = JNull\<rparr>)) = JStr ''blue''
   \<and> snd (snd (get_indicator (\<lambda>s. s)
       \<lparr>name = JStr ''LD-0001'', docstatus = 1, status = ''Submitted'',
        repayment_schedule_type = JNull, against_loan = JNull, applicant_type = JNull,
        applicant = JNull, loan_product = JNull, company = JNull\<rparr>)) = ''status,=,Submitted''"
  using get_indicator_mapped [of "\<lparr>name = JStr ''LD-0001'', docstatus = 1, status = ''Submitted'',
       repayment_schedule_type = JNull, against_loan = JNull, applicant_type = JNull,
       applicant = JNull, loan_product = JNull, company = JNull\<rparr>" "\<lambda>s. s"]
  by simp

subsection \<open>Statuses outside the mapping\<close>

lemma status_color_unmapped:
  "k \<notin> {''Draft'', ''Submitted'', ''Cancelled'', ''Closed''} \<Longrightarrow> map_of status_color k = None"
  by (simp add: status_color_def)

lemma Object_prototype_defined:
  "map_of Object_prototype k = Some v \<Longrightarrow> v \<noteq> JUndefined"
  by (auto simp: Object_prototype_def split: if_splits)

lemma get_prop_unmapped:
  assumes own: "map_of ob k = None"
  shows "(get_prop ob k = JUndefined) = (k \<notin> set (map fst Object_prototype))"
proof (cases "map_of Object_prototype k")
  case None
  then have "k \<notin> set (map fst Object_prototype)"
    by (simp add: map_of_eq_None_iff)
  moreover from own None have "get_prop ob k = JUndefined"
    by (simp add: get_prop_def)
  ultimately show ?thesis by simp
next
  case (Some v)
  then have "k \<in> set (map fst Object_prototype)"
    using map_of_eq_None_iff [of Object_prototype k] by auto
  moreover from own Some have "get_prop ob k = v"
    by (simp add: get_prop_def)
  moreover have "v \<noteq> JUndefined"
    by (rule Object_prototype_defined [OF Some])
  ultimately show ?thesis by simp
qed

text \<open>
  C7, as stated, fails: the status \<^verbatim>\<open>"constructor"\<close> is none of the four keys, yet
  \<^verbatim>\<open>status_color["constructor"]\<close> is not \<^verbatim>\<open>undefined\<close>. The object literal inherits
  that property from \<^verbatim>\<open>Object.prototype\<close>, so the colour component is the function
  \<^verbatim>\<open>Object\<close>.
\<close>

theorem get_indicator_unmapped_counterexample:
  "''constructor'' \<notin> {''Draft'', ''Submitted'', ''Cancelled'', ''Closed''}
   \<and> fst (snd (get_indicator (\<lambda>s. s)
       \<lparr>name = JStr ''LD-0001'', docstatus = 0, status = ''constructor'',
        repayment_schedule_type = JNull, against_loan = JNull, applicant_type = JNull,
        applicant = JNull, loan_product = JNull, company = JNull\<rparr>)) = JBuiltin ''Object''
   \<and> JBuiltin ''Object'' \<noteq> JUndefined"
  by (simp add: get_indicator_def get_prop_def status_color_def Object_prototype_def)

text \<open>
  C7 (amended). For every status string that is none of Draft, Submitted, Cancelled and
  Closed, \<open>get_indicator\<close> returns a triple (the model has no failing branch): the label
  is the translated status and the filter clause is \<^verbatim>\<open>"status,=,"\<close> followed by the
  status. The colour component is \<^verbatim>\<open>undefined\<close> exactly when the status is, in
  addition, not the name of a property inherited from \<^verbatim>\<open>Object.prototype\<close>.
\<close>

theorem get_indicator_unmapped:
  "status d \<notin> {''Draft'', ''Submitted'', ''Cancelled'', ''Closed''} \<Longrightarrow>
     fst (get_indicator tr d) = tr (status d)
     \<and> snd (snd (get_indicator tr d)) = ''status,=,'' @ status d
     \<and> (fst (snd (get_indicator tr d)) = JUndefined
          \<longleftrightarrow> status d \<notin> set (map fst Object_prototype))"
  using get_prop_unmapped [OF status_color_unmapped, of "status d"]
  by (simp add: get_indicator_def)

text \<open>An active document: no colour, and the clause \<^verbatim>\<open>status,=,Active\<close>.\<close>

theorem get_indicator_unmapped_witness:
  "''Active'' \<notin> {''Draft'', ''Submitted'', ''Cancelled'', ''Closed''}
   \<and> ''Active'' \<notin> set (map fst Object_prototype)
   \<and> get_indicator (\<lambda>s. s)
       \<lparr>name = JStr ''LD-0001'', docstatus = 0, status = ''Active'',
        repayment_schedule_type = JNull, against_loan = JNull, applicant_type = JNull,
        applicant = JNull, loan_product = JNull, company = JNull\<rparr>
     = (''Active'', JUndefined, ''status,=,Active'')"
  using get_indicator_unmapped [of "\<lparr>name = JStr ''LD-0001'', docstatus = 0, status = ''Active'',
        repayment_schedule_type = JNull, against_loan = JNull, applicant_type = JNull,
        applicant = JNull, loan_product = JNull, company = JNull\<rparr>" "\<lambda>s. s"]
  by (simp add: Object_prototype_def prod_eq_iff)

subsection \<open>Dependence on the status alone\<close>

text \<open>
  C9. \<open>get_indicator\<close> depends on the status field only: two documents with the same
  status, whatever their other fields (including fields beyond those the scripts read,
  which live in the extension part of the record), give the same triple. The body of
  the source function assigns to nothing but its own local variable
  \<^verbatim>\<open>status_color\<close>, which is why it is embedded as a function from the document to
  the triple, with no state to return.
\<close>

theorem get_indicator_status_only:
  fixes d1 :: "'a document_scheme" and d2 :: "'b document_scheme"
  shows "status d1 = status d2 \<Longrightarrow> get_indicator tr d1 = get_indicator tr d2"
  by (simp add: get_indicator_def)

text \<open>Two draft documents that differ in every other field, one with an extra field.\<close>

theorem get_indicator_status_only_witness:
  "status \<lparr>name = JStr ''LD-0001'', docstatus = 0, status = ''Draft'',
       repayment_schedule_type = JNull, against_loan = JStr ''LOAN-1'',
       applicant_type = JStr ''Customer'', applicant = JStr ''A'', loan_product = JNull,
       company = JStr ''X''\<rparr>
   = status \<lparr>name = JStr ''LD-0002'', docstatus = 2, status = ''Draft'',
       repayment_schedule_type = JStr ''Daily'', against_loan = JStr ''LOAN-2'',
       applicant_type = JStr ''Employee'', applicant = JStr ''B'', loan_product = JStr ''P'',
       company = JStr ''Y'', \<dots> = True\<rparr>
   \<and> get_indicator (\<lambda>s. s) \<lparr>name = JStr ''LD-0001'', docstatus = 0, status = ''Draft'',
       repayment_schedule_type = JNull, against_loan = JStr ''LOAN-1'',
       applicant_type = JStr ''Customer'', applicant = JStr ''A'', loan_product = JNull,
       company = JStr ''X''\<rparr>
   = get_indicator (\<lambda>s. s) \<lparr>name = JStr ''LD-0002'', docstatus = 2, status = ''Draft'',
       repayment_schedule_type = JStr ''Daily'', against_loan = JStr ''LOAN-2'',
       applicant_type = JStr ''Employee'', applicant = JStr ''B'', loan_product = JStr ''P'',
       company = JStr ''Y'', \<dots> = True\<rparr>"
  using get_indicator_status_only [of
      "\<lparr>name = JStr ''LD-0001'', docstatus = 0, status = ''Draft'',
       repayment_schedule_type = JNull, against_loan = JStr ''LOAN-1'',
       applicant_type = JStr ''Customer'', applicant = JStr ''A'', loan_product = JNull,
       company = JStr ''X''\<rparr>"
      "\<lparr>name = JStr ''LD-0002'', docstatus = 2, status = ''Draft'',
       repayment_schedule_type = JStr ''Daily'', against_loan = JStr ''LOAN-2'',
       applicant_type = JStr ''Employee'', applicant = JStr ''B'', loan_product = JStr ''P'',
       company = JStr ''Y'', \<dots> = True\<rparr>" "\<lambda>s. s"]
  by simp

subsection \<open>The colours do not separate the statuses\<close>

text \<open>
  C10. The status-to-colour mapping is not injective: Draft and Cancelled are different
  statuses and \<open>get_indicator\<close> gives both the colour red, so the mapping read through
  \<open>get_prop\<close> is not injective on its four keys.
\<close>

theorem status_color_not_injective:
  "''Draft'' \<noteq> ''Cancelled''
   \<and> fst (snd (get_indicator tr (d\<lparr>status := ''Draft''\<rparr>))) = JStr ''red''
   \<and> fst (snd (get_indicator tr (d\<lparr>status := ''Cancelled''\<rparr>))) = JStr ''red''
   \<and> \<not> inj_on (get_prop status_color) {''Draft'', ''Submitted'', ''Cancelled'', ''Closed''}"
proof -
  have "\<not> inj_on (get_prop status_color) {''Draft'', ''Submitted'', ''Cancelled'', ''Closed''}"
  proof
    assume "inj_on (get_prop status_color) {''Draft'', ''Submitted'', ''Cancelled'', ''Closed''}"
    then have "get_prop status_color ''Draft'' = get_prop status_color ''Cancelled''
      \<longrightarrow> ''Draft'' = ''Cancelled''"
      by (simp add: inj_on_def)
    then show False
      by (simp add: status_color_Draft status_color_Cancelled)
  qed
  then show ?thesis
    by (simp add: get_indicator_def status_color_Draft status_color_Cancelled)
qed

section \<open>Properties of the form handlers\<close>

text \<open>
  C8. \<open>setup_form\<close> (the \<^verbatim>\<open>setup\<close> hook) sets \<^verbatim>\<open>ignore_doctypes_on_cancel_all\<close> to the
  fixed list of eight document types, the same for every form, and leaves the document,
  the queries and the custom buttons of the form as they were.
\<close>

theorem setup_form_effect:
  "ignore_doctypes_on_cancel_all (setup_form frm) =
     JArr (map JStr [''Loan Security Deposit'', ''Loan Repayment Schedule'', ''Sales Invoice'',
       ''Loan Interest Accrual'', ''Loan Demand'', ''Loan Restructure'', ''Loan Repayment'',
       ''Process Loan Classification''])
   \<and> length [''Loan Security Deposit'', ''Loan Repayment Schedule'', ''Sales Invoice'',
       ''Loan Interest Accrual'', ''Loan Demand'', ''Loan Restructure'', ''Loan Repayment'',
       ''Process Loan Classification''] = 8
   \<and> ignore_doctypes_on_cancel_all (setup_form frm) =
       ignore_doctypes_on_cancel_all (setup_form frm')
   \<and> doc (setup_form frm) = doc frm
   \<and> queries (setup_form frm) = queries frm
   \<and> custom_buttons (setup_form frm) = custom_buttons frm"
  by (simp add: setup_form_def)

text \<open>
  C5. Whatever the form and its document, after \<open>refresh\<close> the query installed on
  \<^verbatim>\<open>against_loan\<close> returns, for every document \<open>d\<close> it is asked about, the filters
  \<^verbatim>\<open>docstatus: 1\<close> and \<^verbatim>\<open>status: ["in", ["Sanctioned", "Active", "Partially Disbursed"]]\<close>.
\<close>

theorem refresh_against_loan_query:
  "map_option (\<lambda>q. q d) (queries (refresh tr frm) ''against_loan'') =
     Some (JObj [(''filters'',
       JObj [(''docstatus'', JNum 1),
             (''status'', JArr [JStr ''in'',
                JArr [JStr ''Sanctioned'', JStr ''Active'', JStr ''Partially Disbursed'']])])])"
  by (simp add: refresh_def Let_def against_loan_query_def)

text \<open>
  C2. \<open>refresh\<close> appends the Loan Repayment button (group Create, triggering
  \<^verbatim>\<open>make_repayment_entry\<close>) to the custom buttons exactly when \<^verbatim>\<open>docstatus\<close> is 1,
  \<^verbatim>\<open>repayment_schedule_type\<close> is truthy and \<^verbatim>\<open>status\<close> is not \<^verbatim>\<open>"Closed"\<close>; in every
  other case the custom buttons are unchanged.
\<close>

theorem refresh_button_iff:
  "(custom_buttons (refresh tr frm) = custom_buttons frm @
       [\<lparr>label = tr ''Loan Repayment'', group = tr ''Create'',
         triggers = ''make_repayment_entry''\<rparr>])
     = (docstatus (doc frm) = 1 \<and> truthy (repayment_schedule_type (doc frm))
        \<and> status (doc frm) \<noteq> ''Closed'')
   \<and> (custom_buttons (refresh tr frm) = custom_buttons frm)
     = (\<not> (docstatus (doc frm) = 1 \<and> truthy (repayment_schedule_type (doc frm))
        \<and> status (doc frm) \<noteq> ''Closed''))"
  by (simp add: refresh_def Let_def)

text \<open>The triple (1, "Daily", "Active"): the button is shown.\<close>

theorem refresh_button_iff_witness:
  "custom_buttons (refresh (\<lambda>s. s)
      \<lparr>doc = \<lparr>name = JStr ''LD-0001'', docstatus = 1, status = ''Active'',
              repayment_schedule_type = JStr ''Daily'', against_loan = JStr ''LOAN-1'',
              applicant_type = JStr ''Customer'', applicant = JStr ''A'',
              loan_product = JStr ''P'', company = JStr ''X''\<rparr>,
       ignore_doctypes_on_cancel_all = JUndefined, queries = Map.empty,
       custom_buttons = []\<rparr>)
   = [\<lparr>label = ''Loan Repayment'', group = ''Create'', triggers = ''make_repayment_entry''\<rparr>]"
  using refresh_button_iff [of "\<lambda>s. s"
      "\<lparr>doc = \<lparr>name = JStr ''LD-0001'', docstatus = 1, status = ''Active'',
              repayment_schedule_type = JStr ''Daily'', against_loan = JStr ''LOAN-1'',
              applicant_type = JStr ''Customer'', applicant = JStr ''A'',
              loan_product = JStr ''P'', company = JStr ''X''\<rparr>,
       ignore_doctypes_on_cancel_all = JUndefined, queries = Map.empty,
       custom_buttons = []\<rparr>"]
  by simp

text \<open>
  The triples (1, null, "Active"), (0, "Daily", "Active") and (1, "Daily", "Closed"):
  the button is not added.
\<close>

lemma refresh_button_examples:
  "custom_buttons (refresh tr (frm\<lparr>doc := d\<lparr>docstatus := 1, repayment_schedule_type := JNull,
      status := ''Active''\<rparr>\<rparr>)) = custom_buttons frm"
  "custom_buttons (refresh tr (frm\<lparr>doc := d\<lparr>docstatus := 0,
      repayment_schedule_type := JStr ''Daily'', status := ''Active''\<rparr>\<rparr>)) = custom_buttons frm"
  "custom_buttons (refresh tr (frm\<lparr>doc := d\<lparr>docstatus := 1,
      repayment_schedule_type := JStr ''Daily'', status := ''Closed''\<rparr>\<rparr>)) = custom_buttons frm"
  by (simp_all add: refresh_def Let_def)

section \<open>Properties of the remote call\<close>

text \<open>
  C6. Running \<open>make_repayment_entry\<close> on a form issues exactly one remote call: to the
  server method \<^verbatim>\<open>make_repayment_entry\<close> of the module
  \<^verbatim>\<open>lending.loan_management.doctype.loan.loan\<close>, with the seven arguments \<^verbatim>\<open>loan\<close>,
  \<^verbatim>\<open>applicant_type\<close>, \<^verbatim>\<open>applicant\<close>, \<^verbatim>\<open>loan_product\<close>, \<^verbatim>\<open>company\<close>,
  \<^verbatim>\<open>loan_disbursement\<close> and \<^verbatim>\<open>as_dict\<close> taken from the document as the claim lists
  them, and no others. It neither syncs a payload nor changes the route.
\<close>

theorem make_repayment_entry_call:
  "make_repayment_entry frm fr =
     fr\<lparr>calls := calls fr @
       [\<lparr>method_name = ''lending.loan_management.doctype.loan.loan'' @ ''.'' @ ''make_repayment_entry'',
         args = [(''loan'', against_loan (doc frm)),
                 (''applicant_type'', applicant_type (doc frm)),
                 (''applicant'', applicant (doc frm)),
                 (''loan_product'', loan_product (doc frm)),
                 (''company'', company (doc frm)),
                 (''loan_disbursement'', name (doc frm)),
                 (''as_dict'', JNum 1)]\<rparr>]\<rparr>
   \<and> length (calls (make_repayment_entry frm fr)) = length (calls fr) + 1
   \<and> map fst (args (last (calls (make_repayment_entry frm fr)))) =
       [''loan'', ''applicant_type'', ''applicant'', ''loan_product'', ''company'',
        ''loan_disbursement'', ''as_dict'']
   \<and> synced (make_repayment_entry frm fr) = synced fr
   \<and> route (make_repayment_entry frm fr) = route fr"
  by (simp add: make_repayment_entry_def)

subsection \<open>The callback\<close>

lemma callback_falsy_message:
  "\<not> truthy (get_prop r ''message'') \<Longrightarrow> callback sync r fr = (Some TypeError, fr)"
  by (simp add: callback_def)

text \<open>
  C1. What the code does on a response without a message (the property missing,
  \<^verbatim>\<open>undefined\<close> or \<^verbatim>\<open>null\<close>): nothing is synced and the route is unchanged, but the
  callback does not complete silently. \<^verbatim>\<open>frappe.set_route\<close> is outside the \<^verbatim>\<open>if\<close>,
  so \<^verbatim>\<open>doc.doctype\<close> is evaluated with \<^verbatim>\<open>doc\<close> undefined and a TypeError leaves the
  callback.
\<close>

theorem callback_without_message:
  "callback sync [] fr = (Some TypeError, fr)
   \<and> callback sync [(''message'', JUndefined)] fr = (Some TypeError, fr)
   \<and> callback sync [(''message'', JNull)] fr = (Some TypeError, fr)
   \<and> route (snd (callback sync [(''message'', JNull)] fr)) = route fr"
proof -
  have "\<not> truthy (get_prop [] ''message'')"
    and "\<not> truthy (get_prop [(''message'', JUndefined)] ''message'')"
    and "\<not> truthy (get_prop [(''message'', JNull)] ''message'')"
    by (simp_all add: get_prop_def Object_prototype_def)
  then show ?thesis
    by (simp add: callback_falsy_message)
qed

text \<open>
  C3. When the message of the response is a record payload \<open>JObj p\<close> and the framework's
  sync returns the local documents \<open>d # ds\<close> for it, the callback hands the payload to
  sync, throws nothing and sets the route to \<^verbatim>\<open>Form\<close>, \<open>d\<close>'s \<^verbatim>\<open>doctype\<close> and \<open>d\<close>'s
  \<^verbatim>\<open>name\<close>, where \<open>d\<close> is the first local document.
\<close>

theorem callback_record_payload:
  assumes "get_prop r ''message'' = JObj p"
    and "sync (JObj p) = d # ds"
  shows "callback sync r fr =
    (None, fr\<lparr>synced := synced fr @ [JObj p],
              route := [JStr ''Form'', get_prop d ''doctype'', get_prop d ''name'']\<rparr>)"
  using assms by (simp add: callback_def index0_def)

text \<open>
  The payload \<^verbatim>\<open>{doctype: "Loan Repayment", name: "LR-001"}\<close>, received while the
  disbursement LD-0001 is shown: the route becomes Form / Loan Repayment / LR-001.
\<close>

theorem callback_record_payload_witness:
  "get_prop [(''message'', JObj [(''doctype'', JStr ''Loan Repayment''), (''name'', JStr ''LR-001'')])]
      ''message'' = JObj [(''doctype'', JStr ''Loan Repayment''), (''name'', JStr ''LR-001'')]
   \<and> sync_record (JObj [(''doctype'', JStr ''Loan Repayment''), (''name'', JStr ''LR-001'')])
       = [(''doctype'', JStr ''Loan Repayment''), (''name'', JStr ''LR-001'')] # []
   \<and> callback sync_record
       [(''message'', JObj [(''doctype'', JStr ''Loan Repayment''), (''name'', JStr ''LR-001'')])]
       \<lparr>calls = [], synced = [],
        route = [JStr ''Form'', JStr ''Loan Disbursement'', JStr ''LD-0001'']\<rparr>
     = (None,
        \<lparr>calls = [],
         synced = [JObj [(''doctype'', JStr ''Loan Repayment''), (''name'', JStr ''LR-001'')]],
         route = [JStr ''Form'', JStr ''Loan Repayment'', JStr ''LR-001'']\<rparr>)"
proof -
  have m: "get_prop [(''message'', JObj [(''doctype'', JStr ''Loan Repayment''), (''name'', JStr ''LR-001'')])]
      ''message'' = JObj [(''doctype'', JStr ''Loan Repayment''), (''name'', JStr ''LR-001'')]"
    by (simp add: get_prop_def)
  have s: "sync_record (JObj [(''doctype'', JStr ''Loan Repayment''), (''name'', JStr ''LR-001'')])
       = [(''doctype'', JStr ''Loan Repayment''), (''name'', JStr ''LR-001'')] # []"
    by (simp add: sync_record_def)
  have c: "callback sync_record
       [(''message'', JObj [(''doctype'', JStr ''Loan Repayment''), (''name'', JStr ''LR-001'')])]
       \<lparr>calls = [], synced = [],
        route = [JStr ''Form'', JStr ''Loan Disbursement'', JStr ''LD-0001'']\<rparr>
     = (None,
        \<lparr>calls = [], synced = [],
         route = [JStr ''Form'', JStr ''Loan Disbursement'', JStr ''LD-0001'']\<rparr>
        \<lparr>synced := synced \<lparr>calls = [], synced = [],
            route = [JStr ''Form'', JStr ''Loan Disbursement'', JStr ''LD-0001'']\<rparr>
            @ [JObj [(''doctype'', JStr ''Loan Repayment''), (''name'', JStr ''LR-001'')]],
         route := [JStr ''Form'',
            get_prop [(''doctype'', JStr ''Loan Repayment''), (''name'', JStr ''LR-001'')] ''doctype'',
            get_prop [(''doctype'', JStr ''Loan Repayment''), (''name'', JStr ''LR-001'')] ''name'']\<rparr>)"
    using m s by (rule callback_record_payload)
  show ?thesis
    using m s c by (simp add: get_prop_def)
qed

end
